theory Spec2Isabelle
  imports Main "HOL-Library.Sublist"
begin

section \<open>The Costa runtime: package management of pipeline plugins\<close>

text \<open>
  A shallow embedding of \<^verbatim>\<open>packages/costa/src/runtime.ts\<close>. JavaScript strings are
  \<^typ>\<open>string\<close>; a value that may be \<^verbatim>\<open>undefined\<close> is an \<^typ>\<open>'a option\<close>; an
  exception is the left summand of a sum type; the file system, the root manifest and
  the HTTP cache are explicit states that the operations take and return.
\<close>

subsection \<open>Errors\<close>

text \<open>
  Every \<^verbatim>\<open>throw\<close> of the source constructs a \<^verbatim>\<open>TypeError\<close> with a message.
  \<^verbatim>\<open>JSON.parse\<close> raises a \<^verbatim>\<open>SyntaxError\<close>, and \<^verbatim>\<open>readJson\<close> rejects when the file
  cannot be read.
\<close>

datatype error = TypeError string | SyntaxError | FsError string

subsection \<open>String helpers of the JavaScript library\<close>

text \<open>\<^verbatim>\<open>String.prototype.startsWith\<close>.\<close>

definition startsWith :: "string \<Rightarrow> string \<Rightarrow> bool" where
  "startsWith v p = prefix p v"

text \<open>
  \<^verbatim>\<open>String.prototype.search\<close> with a pattern that matches one character: the index
  of its first occurrence, \<open>None\<close> for the source's \<open>-1\<close>.
\<close>

fun search :: "string \<Rightarrow> char \<Rightarrow> nat option" where
  "search [] c = None"
| "search (x # xs) c =
     (if x = c then Some 0 else (case search xs c of None \<Rightarrow> None | Some i \<Rightarrow> Some (Suc i)))"

text \<open>\<^verbatim>\<open>substr(start, length)\<close> and \<^verbatim>\<open>substr(start)\<close> for non-negative arguments.\<close>

definition substr :: "string \<Rightarrow> nat \<Rightarrow> nat \<Rightarrow> string" where
  "substr s start len = take len (drop start s)"

definition substr_from :: "string \<Rightarrow> nat \<Rightarrow> string" where
  "substr_from s start = drop start s"

text \<open>
  \<^verbatim>\<open>String.prototype.split\<close> with a separator of one character. The result is never
  empty: the empty string splits into one empty piece.
\<close>

fun split :: "string \<Rightarrow> char \<Rightarrow> string list" where
  "split [] c = [[]]"
| "split (x # xs) c =
     (if x = c then [] # split xs c
      else (case split xs c of [] \<Rightarrow> [[x]] | y # ys \<Rightarrow> (x # y) # ys))"

text \<open>
  A relative path all of whose components are plain: none is empty (no leading, doubled
  or trailing separator) and none is \<^verbatim>\<open>.\<close> or \<^verbatim>\<open>..\<close>. A normalised path is such
  a path, or \<^verbatim>\<open>/\<close> followed by one. \<^verbatim>\<open>path.normalize\<close> returns a normalised path
  as it is.
\<close>

definition plain_segments :: "string \<Rightarrow> bool" where
  "plain_segments p = (\<forall>s \<in> set (split p CHR ''/''). s \<noteq> [] \<and> s \<noteq> ''.'' \<and> s \<noteq> ''..'')"

definition normalised :: "string \<Rightarrow> bool" where
  "normalised p = (plain_segments p \<or> (p \<noteq> [] \<and> hd p = CHR ''/'' \<and> plain_segments (tl p)))"

text \<open>
  \<^verbatim>\<open>path.join\<close> joins its non-empty arguments with \<^verbatim>\<open>/\<close> and normalises the result.
  The model is the first step only. It is the value of \<^verbatim>\<open>path.join\<close> when the first
  argument is \<open>normalised\<close> and the others are \<open>plain_segments\<close>; elsewhere
  \<^verbatim>\<open>path.join\<close> returns another spelling of the path (for \<^verbatim>\<open>/p/\<close> and
  \<^verbatim>\<open>node_modules\<close> it returns \<^verbatim>\<open>/p/node_modules\<close>, the model \<^verbatim>\<open>/p//node_modules\<close>).
  A statement that gives a joined path as a text carries this condition as a hypothesis.
\<close>

fun path_join :: "string list \<Rightarrow> string" where
  "path_join [] = ''.''"
| "path_join [p] = p"
| "path_join (p # ps) = p @ ''/'' @ path_join ps"

subsection \<open>Requirement lines of the interpreter environment\<close>

text \<open>
  \<^verbatim>\<open>CondaConfig.dependencies\<close> is an object from names to version specifications;
  \<^verbatim>\<open>for (k in ...)\<close> visits its keys in enumeration order, so the model is the list of
  its entries in that order.
\<close>

record CondaConfig =
  dependencies :: "(string \<times> string) list"

text \<open>One pass of the loop body of \<^verbatim>\<open>createRequirements\<close>, pushing onto \<open>deps\<close>.\<close>

fun createRequirements_loop :: "(string \<times> string) list \<Rightarrow> string list \<Rightarrow> string list" where
  "createRequirements_loop [] deps = deps"
| "createRequirements_loop ((k, v) # rest) deps =
     (if v = ''*'' then createRequirements_loop rest (deps @ [k])
      else if startsWith v ''git+https://'' = True then createRequirements_loop rest (deps @ [v])
      else createRequirements_loop rest (deps @ [k @ ''=='' @ v]))"

definition createRequirements :: "string \<Rightarrow> CondaConfig \<Rightarrow> string list" where
  "createRequirements name config = createRequirements_loop (dependencies config) []"

subsection \<open>Package names\<close>

text \<open>
  \<^verbatim>\<open>NpmPackageNameSchema\<close>: a new object has no field set; \<open>scope\<close> stays
  \<^verbatim>\<open>undefined\<close> for an unscoped name and \<open>version\<close> is \<^verbatim>\<open>null\<close> when none is given.
\<close>

record NpmPackageNameSchema =
  scope :: "string option"
  schema_name :: string
  schema_version :: "string option"

text \<open>The destructuring \<^verbatim>\<open>[ name, version ] = fullname.split('@')\<close>.\<close>

definition name_and_version :: "string list \<Rightarrow> string \<times> string option" where
  "name_and_version parts =
     (case parts of
        [] \<Rightarrow> ([], None)
      | [n] \<Rightarrow> (n, None)
      | n # v # _ \<Rightarrow> (n, Some v))"

definition getNameSchema :: "string \<Rightarrow> error + NpmPackageNameSchema" where
  "getNameSchema fullname =
     (if fullname \<noteq> [] \<and> hd fullname = CHR ''@'' then
        (case search fullname CHR ''/'' of
           None \<Rightarrow> Inl (TypeError (''invalid package name: '' @ fullname))
         | Some scopeEnds \<Rightarrow>
             (let (name, version) = name_and_version (split (substr_from fullname (scopeEnds + 1)) CHR ''@'')
              in Inr \<lparr>scope = Some (substr fullname 0 scopeEnds),
                      schema_name = name,
                      schema_version = (case version of
                                          None \<Rightarrow> None
                                        | Some v \<Rightarrow> if v \<noteq> [] then Some v else None)\<rparr>))
      else
        (let (name, version) = name_and_version (split fullname CHR ''@'')
         in Inr \<lparr>scope = None,
                 schema_name = name,
                 schema_version = (case version of
                                     None \<Rightarrow> None
                                   | Some v \<Rightarrow> if v \<noteq> [] then Some v else None)\<rparr>))"

subsection \<open>Plugin sources and registry metadata\<close>

datatype PluginProtocol = npm | git | fs | tarball

text \<open>
  \<^verbatim>\<open>PluginSource\<close>. The parsed URL object is used by the \<^verbatim>\<open>git\<close> branch of
  \<^verbatim>\<open>fetch\<close> only and is kept as its text.
\<close>

record PluginSource =
  source_from :: PluginProtocol
  source_name :: string
  source_uri :: "string option"
  urlObject :: "string option"
  schema :: "NpmPackageNameSchema option"

text \<open>
  A dist-tag read from the registry metadata is a version, or \<^verbatim>\<open>undefined\<close> when the
  tag is not there, or \<^verbatim>\<open>null\<close>. Used as a property key, each is converted to a string.
\<close>

datatype tagval = Undefined | Null | Version string

fun property_key :: "tagval \<Rightarrow> string" where
  "property_key Undefined = ''undefined''"
| "property_key Null = ''null''"
| "property_key (Version v) = v"

text \<open>
  \<^verbatim>\<open>NpmPackageMetadata\<close>: the dist-tags by tag name, and the versions map, which is the
  own properties of the object \<^verbatim>\<open>versions\<close>: the manifests by version. The manifest
  type is a parameter.
\<close>

record 'p NpmPackageMetadata =
  dist_tags :: "string \<Rightarrow> tagval"
  own_versions :: "string \<rightharpoonup> 'p"

text \<open>
  The metadata come from \<^verbatim>\<open>JSON.parse\<close>, so \<^verbatim>\<open>versions\<close> is a plain object and
  inherits the properties of \<^verbatim>\<open>Object.prototype\<close>.
\<close>

definition Object_prototype_properties :: "string list" where
  "Object_prototype_properties =
     [''constructor'', ''__defineGetter__'', ''__defineSetter__'', ''hasOwnProperty'',
      ''__lookupGetter__'', ''__lookupSetter__'', ''isPrototypeOf'', ''propertyIsEnumerable'',
      ''toString'', ''valueOf'', ''__proto__'', ''toLocaleString'']"

text \<open>
  The value of a property read on \<^verbatim>\<open>versions\<close>: a manifest of the map, or the member
  of \<^verbatim>\<open>Object.prototype\<close> of that name.
\<close>

datatype 'p property = Own 'p | Inherited string

text \<open>
  The read \<^verbatim>\<open>metadata.versions[key]\<close>: an own property first, then an inherited one,
  and \<open>None\<close> for \<^verbatim>\<open>undefined\<close>.
\<close>

definition versions :: "'p NpmPackageMetadata \<Rightarrow> string \<Rightarrow> 'p property option" where
  "versions metadata key =
     (case own_versions metadata key of
        Some p \<Rightarrow> Some (Own p)
      | None \<Rightarrow> if key \<in> set Object_prototype_properties then Some (Inherited key) else None)"

text \<open>
  \<^verbatim>\<open>selectNpmPackage\<close>. Destructuring \<^verbatim>\<open>source?.schema\<close> raises when the source has
  no schema. The result is \<open>None\<close> when the read of \<^verbatim>\<open>versions\<close> gives \<^verbatim>\<open>undefined\<close>.
\<close>

definition selectNpmPackage ::
  "'p NpmPackageMetadata \<Rightarrow> PluginSource \<Rightarrow> error + 'p property option" where
  "selectNpmPackage metadata source =
     (case schema source of
        None \<Rightarrow> Inl (TypeError ''Cannot destructure property 'version' of 'undefined' '')
      | Some s \<Rightarrow>
          (let version = schema_version s in
           if version = Some ''beta'' then
             (if dist_tags metadata ''beta'' = Undefined \<or> dist_tags metadata ''beta'' = Null
              then Inl (TypeError (''the package \"'' @ source_name source @ ''\" has no beta version.''))
              else Inr (versions metadata (property_key (dist_tags metadata ''beta''))))
           else if version = Some ''latest'' then
             Inr (versions metadata (property_key (dist_tags metadata ''latest'')))
           else if version \<noteq> None \<and> version \<noteq> Some [] then
             Inr (versions metadata (the version))
           else
             Inr (versions metadata (property_key (dist_tags metadata ''latest'')))))"

subsection \<open>The cached HTTP fetch\<close>

text \<open>
  Modelled from the spec: the class \<^verbatim>\<open>LRUCache\<close> that \<^verbatim>\<open>runtime.ts\<close> imports from
  \<^verbatim>\<open>./lrucache\<close> is not among the sources. The specification describes it as a capacity,
  a most-recent-first sequence of keys and a store from keys to values; \<open>get\<close> on a hit
  moves the key to the most recent position; \<open>put\<close> on an existing key updates the value
  and moves the key to the most recent position; \<open>put\<close> beyond the capacity evicts the
  least recently used key.
\<close>

record 'v LRUCache =
  capacity :: nat
  order :: "string list"
  store :: "string \<rightharpoonup> 'v"

definition lru_new :: "nat \<Rightarrow> 'v LRUCache" where
  "lru_new cap = \<lparr>capacity = cap, order = [], store = Map.empty\<rparr>"

definition lru_get :: "'v LRUCache \<Rightarrow> string \<Rightarrow> 'v option \<times> 'v LRUCache" where
  "lru_get c k =
     (case store c k of
        None \<Rightarrow> (None, c)
      | Some v \<Rightarrow> (Some v, c\<lparr>order := k # removeAll k (order c)\<rparr>))"

definition lru_put :: "'v LRUCache \<Rightarrow> string \<Rightarrow> 'v \<Rightarrow> 'v LRUCache" where
  "lru_put c k v =
     (if store c k \<noteq> None then
        c\<lparr>order := k # removeAll k (order c), store := (store c)(k \<mapsto> v)\<rparr>
      else
        (let c1 = (if capacity c \<le> length (order c) \<and> order c \<noteq> []
                   then c\<lparr>order := butlast (order c),
                          store := (store c)(last (order c) := None)\<rparr>
                   else c)
         in c1\<lparr>order := k # order c1, store := (store c1)(k \<mapsto> v)\<rparr>))"

definition HTTP_CACHE_LIMIT :: nat where
  "HTTP_CACHE_LIMIT = 1000"

text \<open>
  \<^verbatim>\<open>HTTPCache\<close>, the cached response of one URI. The two validators are response
  headers, which may be missing. The type of parsed JSON bodies is a parameter.
\<close>

record 'j HTTPCache =
  etag :: "string option"
  lastModified :: "string option"
  body :: 'j

text \<open>The conditional request headers set when a truthy body is cached.\<close>

record RequestHeaders =
  cache_control :: string
  if_modified_since :: "string option"
  if_none_match :: "string option"

text \<open>
  The full response that the request resolves with (\<^verbatim>\<open>resolveWithFullResponse\<close>): the
  status code, the status message, the body text and the two validator headers.
\<close>

record Response =
  statusCode :: nat
  statusMessage :: string
  resp_body :: string
  header_etag :: "string option"
  header_last_modified :: "string option"

text \<open>
  The read \<^verbatim>\<open>resp.message\<close>: a full response has the property \<^verbatim>\<open>statusMessage\<close> and
  no property \<^verbatim>\<open>message\<close>, so the read gives \<^verbatim>\<open>undefined\<close>.
\<close>

definition message :: "Response \<Rightarrow> string option" where
  "message resp = None"

text \<open>The module's cache \<^verbatim>\<open>httpCacheByURI\<close> when the module is loaded.\<close>

definition httpCacheByURI :: "'j HTTPCache LRUCache" where
  "httpCacheByURI = lru_new HTTP_CACHE_LIMIT"

text \<open>
  The headers of the request: the conditional headers when the cache holds a truthy
  body for the URI, no headers otherwise. \<open>truthy\<close> is the truthiness of a parsed body.
\<close>

definition request_headers :: "('j \<Rightarrow> bool) \<Rightarrow> 'j HTTPCache option \<Rightarrow> RequestHeaders option" where
  "request_headers truthy cache =
     (case cache of
        None \<Rightarrow> None
      | Some e \<Rightarrow>
          if truthy (body e) then
            Some \<lparr>cache_control = ''max-age=0'',
                  if_modified_since = lastModified e,
                  if_none_match =
                    (case etag e of
                       None \<Rightarrow> None
                     | Some t \<Rightarrow> if t \<noteq> [] then Some (''W/'' @ t) else None)\<rparr>
          else None)"

text \<open>
  \<^verbatim>\<open>requestHttpGetWithCache\<close>. Its surroundings are parameters: \<open>get\<close> is the request
  (it may reject, and its response may depend on the headers sent), \<open>parse\<close> is
  \<^verbatim>\<open>JSON.parse\<close> (\<open>None\<close> when it raises). The state is the cache. A \<^verbatim>\<open>TypeError\<close>
  constructed from an undefined message has the empty message.
\<close>

definition requestHttpGetWithCache ::
  "(string \<Rightarrow> RequestHeaders option \<Rightarrow> error + Response) \<Rightarrow> (string \<Rightarrow> 'j option) \<Rightarrow>
   ('j \<Rightarrow> bool) \<Rightarrow> string \<Rightarrow> 'j HTTPCache LRUCache \<Rightarrow> (error + 'j) \<times> 'j HTTPCache LRUCache" where
  "requestHttpGetWithCache get parse truthy uri cache_by_uri =
     (case lru_get cache_by_uri uri of
        (cache, c1) \<Rightarrow>
          (case get uri (request_headers truthy cache) of
             Inl err \<Rightarrow> (Inl err, c1)
           | Inr resp \<Rightarrow>
               if statusCode resp = 200 then
                 (case parse (resp_body resp) of
                    None \<Rightarrow> (Inl SyntaxError, c1)
                  | Some b \<Rightarrow>
                      (Inr b,
                       lru_put c1 uri
                         \<lparr>etag = header_etag resp,
                          lastModified = header_last_modified resp,
                          body = b\<rparr>))
               else if statusCode resp = 304 then
                 (case cache of
                    None \<Rightarrow> (Inl (TypeError ''Cannot read property 'body' of undefined''), c1)
                  | Some e \<Rightarrow> (Inr (body e), c1))
               else
                 (Inl (TypeError (case message resp of None \<Rightarrow> [] | Some m \<Rightarrow> m)), c1)))"

subsection \<open>Plugin packages: validation and target paths\<close>

record RuntimeOptions =
  installDir :: string
  datasetDir :: string
  componentDir :: string
  npmRegistryPrefix :: string

record PluginTarget =
  PYTHONPATH :: string
  DESTPATH :: string

text \<open>
  The \<^verbatim>\<open>pipcook\<close> field of a manifest, an object by the type \<^verbatim>\<open>PluginPackage\<close>;
  the runtime sets its \<open>source\<close> and \<open>target\<close>.
\<close>

record PipcookMeta =
  source :: "PluginSource option"
  target :: "PluginTarget option"

text \<open>
  \<^verbatim>\<open>PluginPackage\<close>: \<open>pipcook\<close> is \<open>None\<close> when the field is missing or falsy. Where
  a package is passed, \<open>None\<close> is \<^verbatim>\<open>undefined\<close>, which \<^verbatim>\<open>selectNpmPackage\<close> can return.
\<close>

record PluginPackage =
  pkg_name :: string
  pkg_version :: string
  pipcook :: "PipcookMeta option"
  conda :: "CondaConfig option"

definition validPackage :: "PluginPackage option \<Rightarrow> error + unit" where
  "validPackage pkg =
     (case pkg of
        None \<Rightarrow> Inl (TypeError ''Cannot read property 'pipcook' of undefined'')
      | Some p \<Rightarrow>
          (case pipcook p of
             None \<Rightarrow> Inl (TypeError ''Invalid plugin package.json, not found on \"pipcook\"'')
           | Some _ \<Rightarrow> Inr ()))"

definition assignPackage ::
  "RuntimeOptions \<Rightarrow> PluginPackage option \<Rightarrow> PluginSource \<Rightarrow> error + PluginPackage option" where
  "assignPackage options pkg src =
     (case pkg of
        None \<Rightarrow> Inl (TypeError ''Cannot read property 'pipcook' of undefined'')
      | Some p \<Rightarrow>
          (case pipcook p of
             None \<Rightarrow> Inl (TypeError ''Cannot set property 'source' of undefined'')
           | Some meta \<Rightarrow>
               Inr (Some (p\<lparr>pipcook := Some (meta
                 \<lparr>source := Some src,
                  target := Some
                    \<lparr>PYTHONPATH = path_join
                       [installDir options,
                        ''conda_envs/'' @ pkg_name p @ ''@'' @ pkg_version p,
                        ''lib/python3.7/site-packages''],
                     DESTPATH = path_join
                       [installDir options,
                        ''node_modules/'' @ pkg_name p @ ''@'' @ pkg_version p]\<rparr>\<rparr>)\<rparr>))))"

text \<open>
  \<^verbatim>\<open>validAndAssign\<close>; \<open>node_env\<close> is \<^verbatim>\<open>process.env.NODE_ENV\<close>. The second component
  of the result lists the warnings printed. A failure of the \<^verbatim>\<open>try\<close> block leaves the
  package as it was: \<^verbatim>\<open>validPackage\<close> writes nothing, and \<^verbatim>\<open>assignPackage\<close> can only fail
  at its first write.
\<close>

definition validAndAssign ::
  "string option \<Rightarrow> RuntimeOptions \<Rightarrow> PluginPackage option \<Rightarrow> PluginSource \<Rightarrow>
   error + (PluginPackage option \<times> string list)" where
  "validAndAssign node_env options pkg src =
     (case (case validPackage pkg of Inl err \<Rightarrow> Inl err | Inr _ \<Rightarrow> assignPackage options pkg src) of
        Inr pkg' \<Rightarrow> Inr (pkg', [])
      | Inl err \<Rightarrow>
          if node_env = Some ''test'' then
            Inr (pkg, [''skip the valid package and assign because NODE_ENV is set to \"test\".''])
          else Inl err)"

subsection \<open>The install root: directories and the root manifest\<close>

text \<open>
  The root manifest \<^verbatim>\<open>package.json\<close> as \<^verbatim>\<open>uninstall\<close> uses it: its dependency map, if
  there is one.
\<close>

record RootManifest =
  manifest_dependencies :: "(string \<rightharpoonup> string) option"

text \<open>The writes to the disk, in the order in which they are issued.\<close>

datatype effect = Remove string | WriteJson string RootManifest

text \<open>
  The state of the disk: the paths that exist, the JSON files that can be read by path,
  and the writes made so far.
\<close>

record World =
  entries :: "string set"
  json_files :: "string \<rightharpoonup> RootManifest"
  trace :: "effect list"

definition pathExists :: "string \<Rightarrow> World \<Rightarrow> bool" where
  "pathExists p w = (p \<in> entries w)"

text \<open>
  \<^verbatim>\<open>remove\<close> of fs-extra deletes a path with everything below it and does nothing when
  the path does not exist.
\<close>

definition remove_path :: "string \<Rightarrow> World \<Rightarrow> World" where
  "remove_path p w =
     w\<lparr>entries := Set.filter (\<lambda>q. q \<noteq> p \<and> \<not> prefix (p @ ''/'') q) (entries w),
       trace := trace w @ [Remove p]\<rparr>"

definition readJson :: "string \<Rightarrow> World \<Rightarrow> error + RootManifest" where
  "readJson p w = (case json_files w p of None \<Rightarrow> Inl (FsError p) | Some m \<Rightarrow> Inr m)"

definition writeJson :: "string \<Rightarrow> RootManifest \<Rightarrow> World \<Rightarrow> World" where
  "writeJson p m w = w\<lparr>json_files := (json_files w)(p \<mapsto> m), trace := trace w @ [WriteJson p m]\<rparr>"

subsection \<open>Install and uninstall\<close>

definition isInstalled :: "RuntimeOptions \<Rightarrow> string \<Rightarrow> World \<Rightarrow> bool" where
  "isInstalled options name w = pathExists (installDir options @ ''/node_modules/'' @ name) w"

text \<open>
  The closure \<^verbatim>\<open>removePkg\<close> of \<^verbatim>\<open>uninstall\<close>. It works on the manifest \<open>pkg\<close> read at
  the start of \<^verbatim>\<open>uninstall\<close> and on the disk. The two removals are started in this order
  and awaited together; they commute.
\<close>

definition removePkg ::
  "RuntimeOptions \<Rightarrow> string \<Rightarrow> string \<Rightarrow> RootManifest \<Rightarrow> World \<Rightarrow> bool \<times> RootManifest \<times> World" where
  "removePkg options name version pkg w =
     (if \<not> isInstalled options name w then (False, pkg, w)
      else
        (let w1 = remove_path (path_join [installDir options, ''node_modules'', name]) w;
             w2 = remove_path
                    (path_join [installDir options, ''conda_envs'', name @ ''@'' @ version]) w1;
             pkg' = (case manifest_dependencies pkg of
                       None \<Rightarrow> pkg
                     | Some deps \<Rightarrow>
                         (case deps name of
                            None \<Rightarrow> pkg
                          | Some v \<Rightarrow>
                              if v \<noteq> [] then pkg\<lparr>manifest_dependencies := Some (deps(name := None))\<rparr>
                              else pkg))
         in (True, pkg', w2)))"

record PkgMeta =
  meta_name :: string
  meta_version :: string

text \<open>The argument of \<^verbatim>\<open>uninstall\<close>: one entry, or an array of entries.\<close>

datatype PkgMetaArg = One PkgMeta | Many "PkgMeta list"

text \<open>The \<^verbatim>\<open>for\<close> loop of \<^verbatim>\<open>uninstall\<close> over an array, with its variable \<open>success\<close>.\<close>

fun uninstall_loop ::
  "RuntimeOptions \<Rightarrow> PkgMeta list \<Rightarrow> bool \<Rightarrow> RootManifest \<Rightarrow> World \<Rightarrow> bool \<times> RootManifest \<times> World" where
  "uninstall_loop options [] success pkg w = (success, pkg, w)"
| "uninstall_loop options (meta # metas) success pkg w =
     (case removePkg options (meta_name meta) (meta_version meta) pkg w of
        (removed, pkg', w') \<Rightarrow>
          uninstall_loop options metas (if removed then True else success) pkg' w')"

definition uninstall :: "RuntimeOptions \<Rightarrow> PkgMetaArg \<Rightarrow> World \<Rightarrow> error + (bool \<times> World)" where
  "uninstall options pkgMeta w =
     (case readJson (path_join [installDir options, ''package.json'']) w of
        Inl err \<Rightarrow> Inl err
      | Inr pkg \<Rightarrow>
          (case (case pkgMeta of
                   Many metas \<Rightarrow> uninstall_loop options metas False pkg w
                 | One meta \<Rightarrow> removePkg options (meta_name meta) (meta_version meta) pkg w) of
             (success, pkg', w') \<Rightarrow>
               if success
               then Inr (success, writeJson (path_join [installDir options, ''package.json'']) pkg' w')
               else Inr (success, w')))"

record InstallOptions =
  pyIndex :: "string option"
  force :: "bool option"

text \<open>
  \<^verbatim>\<open>install\<close>. What follows the check for an installed package (locating the
  interpreter toolchain and running the two provisioning pipelines, which spawn
  subprocesses) is the parameter \<open>provision\<close>, a function on the disk that may fail.
\<close>

definition install ::
  "(RuntimeOptions \<Rightarrow> PluginPackage \<Rightarrow> InstallOptions \<Rightarrow> World \<Rightarrow> error + World) \<Rightarrow>
   RuntimeOptions \<Rightarrow> PluginPackage \<Rightarrow> InstallOptions \<Rightarrow> World \<Rightarrow> error + (bool \<times> World)" where
  "install provision options pkg opts w =
     (case (if force opts = Some True
            then (case uninstall options
                         (One \<lparr>meta_name = pkg_name pkg, meta_version = pkg_version pkg\<rparr>) w of
                    Inl err \<Rightarrow> Inl err
                  | Inr (_, w') \<Rightarrow> Inr w')
            else Inr w) of
        Inl err \<Rightarrow> Inl err
      | Inr w1 \<Rightarrow>
          if isInstalled options (pkg_name pkg) w1 \<and> \<not> (force opts = Some True)
          then Inr (True, w1)
          else (case provision options pkg opts w1 of
                  Inl err \<Rightarrow> Inl err
                | Inr w2 \<Rightarrow> Inr (True, w2)))"

text \<open>
  The writes made between a state \<open>w\<close> and a later state \<open>w'\<close> of the same run.
\<close>

definition new_effects :: "World \<Rightarrow> World \<Rightarrow> effect list" where
  "new_effects w w' = drop (length (trace w)) (trace w')"

section \<open>Properties\<close>

lemma createRequirements_loop_append:
  "createRequirements_loop xs deps = deps @ createRequirements_loop xs []"
proof (induction xs arbitrary: deps)
  case Nil
  show ?case by simp
next
  case (Cons x xs)
  obtain k v where x: "x = (k, v)" by (cases x)
  define l where
    "l = (if v = ''*'' then k else if startsWith v ''git+https://'' then v else k @ ''=='' @ v)"
  have step: "createRequirements_loop (x # xs) d = createRequirements_loop xs (d @ [l])" for d
    by (simp add: x l_def)
  have "createRequirements_loop (x # xs) deps = (deps @ [l]) @ createRequirements_loop xs []"
    using Cons.IH [of "deps @ [l]"] by (simp only: step)
  also have "\<dots> = deps @ createRequirements_loop xs ([] @ [l])"
    using Cons.IH [of "[l]"] by simp
  finally show ?case by (simp only: step)
qed

subsection \<open>Requirement lines\<close>

lemma createRequirements_map:
  "createRequirements name config =
     map (\<lambda>(k, v). if v = ''*'' then k
                     else if startsWith v ''git+https://'' then v
                     else k @ ''=='' @ v) (dependencies config)"
proof -
  have "createRequirements_loop xs [] =
          map (\<lambda>(k, v). if v = ''*'' then k
                          else if startsWith v ''git+https://'' then v
                          else k @ ''=='' @ v) xs" for xs
  proof (induction xs)
    case Nil
    show ?case by simp
  next
    case (Cons x xs)
    obtain k v where x: "x = (k, v)" by (cases x)
    show ?case
      using Cons.IH createRequirements_loop_append [of xs "[k]"]
        createRequirements_loop_append [of xs "[v]"]
        createRequirements_loop_append [of xs "[k @ ''=='' @ v]"]
      by (simp add: x)
  qed
  then show ?thesis by (simp add: createRequirements_def)
qed

text \<open>
  Claim C6. The requirement lines are in the order of the dependency entries, one line
  per entry: the value \<^verbatim>\<open>*\<close> gives the bare name, a value that starts with
  \<^verbatim>\<open>git+https://\<close> is taken as it is, and any other value gives \<^verbatim>\<open>name==value\<close>.
\<close>

theorem createRequirements_lines:
  "length (createRequirements name config) = length (dependencies config) \<and>
   (\<forall>i < length (dependencies config).
      (snd (dependencies config ! i) = ''*'' \<longrightarrow>
         createRequirements name config ! i = fst (dependencies config ! i)) \<and>
      (startsWith (snd (dependencies config ! i)) ''git+https://'' \<longrightarrow>
         createRequirements name config ! i = snd (dependencies config ! i)) \<and>
      (snd (dependencies config ! i) \<noteq> ''*'' \<and>
       \<not> startsWith (snd (dependencies config ! i)) ''git+https://'' \<longrightarrow>
         createRequirements name config ! i =
           fst (dependencies config ! i) @ ''=='' @ snd (dependencies config ! i)))"
  by (auto simp: createRequirements_map startsWith_def split: prod.splits)

text \<open>The three examples of the specification, and the third entry of a longer map.\<close>

theorem createRequirements_lines_witness:
  "createRequirements ''p@1'' \<lparr>dependencies = [(''numpy'', ''*'')]\<rparr> = [''numpy''] \<and>
   createRequirements ''p@1'' \<lparr>dependencies = [(''foo'', ''git+https://x/y'')]\<rparr> = [''git+https://x/y''] \<and>
   createRequirements ''p@1'' \<lparr>dependencies = [(''bar'', ''1.0'')]\<rparr> = [''bar==1.0''] \<and>
   createRequirements ''p@1''
     \<lparr>dependencies = [(''numpy'', ''*''), (''foo'', ''git+https://x/y''), (''bar'', ''1.0'')]\<rparr> ! 2 =
     ''bar==1.0''"
  using createRequirements_lines [of "''p@1''"
      "\<lparr>dependencies = [(''numpy'', ''*''), (''foo'', ''git+https://x/y''), (''bar'', ''1.0'')]\<rparr>"]
  by (simp add: createRequirements_def startsWith_def)

subsection \<open>Package names\<close>

lemma search_None: "search s c = None \<longleftrightarrow> c \<notin> set s"
  by (induction s) (auto split: option.splits)

text \<open>
  Claim C7. The identifier \<^verbatim>\<open>@scope/name@1.2.3\<close> is parsed into the scope
  \<^verbatim>\<open>@scope\<close>, the name \<^verbatim>\<open>name\<close> and the version \<^verbatim>\<open>1.2.3\<close>; an identifier that
  starts with \<^verbatim>\<open>@\<close> and contains no \<^verbatim>\<open>/\<close> is rejected with an error.
\<close>

theorem getNameSchema_scoped:
  "getNameSchema ''@scope/name@1.2.3'' =
     Inr \<lparr>scope = Some ''@scope'', schema_name = ''name'', schema_version = Some ''1.2.3''\<rparr> \<and>
   (fullname \<noteq> [] \<and> hd fullname = CHR ''@'' \<and> CHR ''/'' \<notin> set fullname \<longrightarrow>
      getNameSchema fullname = Inl (TypeError (''invalid package name: '' @ fullname)))"
proof
  show "getNameSchema ''@scope/name@1.2.3'' =
     Inr \<lparr>scope = Some ''@scope'', schema_name = ''name'', schema_version = Some ''1.2.3''\<rparr>"
    by (simp add: getNameSchema_def substr_def substr_from_def name_and_version_def)
next
  show "fullname \<noteq> [] \<and> hd fullname = CHR ''@'' \<and> CHR ''/'' \<notin> set fullname \<longrightarrow>
      getNameSchema fullname = Inl (TypeError (''invalid package name: '' @ fullname))"
  proof
    assume h: "fullname \<noteq> [] \<and> hd fullname = CHR ''@'' \<and> CHR ''/'' \<notin> set fullname"
    then have "search fullname CHR ''/'' = None" by (simp add: search_None)
    with h show "getNameSchema fullname = Inl (TypeError (''invalid package name: '' @ fullname))"
      by (simp add: getNameSchema_def)
  qed
qed

theorem getNameSchema_scoped_witness:
  "getNameSchema ''@scope'' = Inl (TypeError ''invalid package name: @scope'')"
  using getNameSchema_scoped [of "''@scope''"] by simp

subsection \<open>Selection of a manifest from the registry metadata\<close>

text \<open>
  Claim C1. For a source with a name schema, the selection follows the ordered rule:
  the tag \<^verbatim>\<open>beta\<close> without a \<^verbatim>\<open>beta\<close> dist-tag fails (the source throws a
  \<^verbatim>\<open>TypeError\<close>, which is the resolution failure of the specification); the tags
  \<^verbatim>\<open>beta\<close> and \<^verbatim>\<open>latest\<close> give the manifest stored under the version that the
  dist-tag names; any other non-empty version is looked up as it is, with no range
  matching; and without a version the manifest under the \<^verbatim>\<open>latest\<close> dist-tag is
  returned.
\<close>

theorem selectNpmPackage_rule:
  assumes "schema src = Some s"
  shows
  "(schema_version s = Some ''beta'' \<and> dist_tags metadata ''beta'' \<in> {Undefined, Null} \<longrightarrow>
      selectNpmPackage metadata src =
        Inl (TypeError (''the package \"'' @ source_name src @ ''\" has no beta version.''))) \<and>
   (schema_version s = Some ''beta'' \<and> dist_tags metadata ''beta'' = Version v \<longrightarrow>
      selectNpmPackage metadata src = Inr (versions metadata v)) \<and>
   (schema_version s = Some ''latest'' \<longrightarrow>
      selectNpmPackage metadata src =
        Inr (versions metadata (property_key (dist_tags metadata ''latest'')))) \<and>
   (schema_version s = Some ver \<and> ver \<notin> {''beta'', ''latest'', ''''} \<longrightarrow>
      selectNpmPackage metadata src = Inr (versions metadata ver)) \<and>
   (schema_version s = None \<or> schema_version s = Some '''' \<longrightarrow>
      selectNpmPackage metadata src =
        Inr (versions metadata (property_key (dist_tags metadata ''latest''))))"
  using assms by (auto simp: selectNpmPackage_def)

text \<open>
  The example of the specification: with the dist-tags \<^verbatim>\<open>latest: 1.2.0\<close> and
  \<^verbatim>\<open>beta: 2.0.0-beta\<close> the tag \<^verbatim>\<open>beta\<close> selects the manifest of version
  \<^verbatim>\<open>2.0.0-beta\<close>, and without a \<^verbatim>\<open>beta\<close> dist-tag the selection fails.
\<close>

theorem selectNpmPackage_rule_witness:
  "selectNpmPackage
     \<lparr>dist_tags = (\<lambda>t. if t = ''latest'' then Version ''1.2.0''
                        else if t = ''beta'' then Version ''2.0.0-beta'' else Undefined),
      own_versions = [''1.2.0'' \<mapsto> (1::nat), ''2.0.0-beta'' \<mapsto> 2]\<rparr>
     \<lparr>source_from = npm, source_name = ''p@beta'', source_uri = Some ''https://r/p'',
      urlObject = None,
      schema = Some \<lparr>scope = None, schema_name = ''p'', schema_version = Some ''beta''\<rparr>\<rparr>
     = Inr (Some (Own 2)) \<and>
   selectNpmPackage
     \<lparr>dist_tags = (\<lambda>t. if t = ''latest'' then Version ''1.2.0'' else Undefined),
      own_versions = [''1.2.0'' \<mapsto> (1::nat)]\<rparr>
     \<lparr>source_from = npm, source_name = ''p@beta'', source_uri = Some ''https://r/p'',
      urlObject = None,
      schema = Some \<lparr>scope = None, schema_name = ''p'', schema_version = Some ''beta''\<rparr>\<rparr>
     = Inl (TypeError ''the package \"p@beta\" has no beta version.'')"
  using
    selectNpmPackage_rule [of
      "\<lparr>source_from = npm, source_name = ''p@beta'', source_uri = Some ''https://r/p'',
        urlObject = None,
        schema = Some \<lparr>scope = None, schema_name = ''p'', schema_version = Some ''beta''\<rparr>\<rparr>"
      "\<lparr>scope = None, schema_name = ''p'', schema_version = Some ''beta''\<rparr>"
      "\<lparr>dist_tags = (\<lambda>t. if t = ''latest'' then Version ''1.2.0''
                        else if t = ''beta'' then Version ''2.0.0-beta'' else Undefined),
        own_versions = [''1.2.0'' \<mapsto> (1::nat), ''2.0.0-beta'' \<mapsto> 2]\<rparr>"
      "''2.0.0-beta''" "''1.0.0''"]
    selectNpmPackage_rule [of
      "\<lparr>source_from = npm, source_name = ''p@beta'', source_uri = Some ''https://r/p'',
        urlObject = None,
        schema = Some \<lparr>scope = None, schema_name = ''p'', schema_version = Some ''beta''\<rparr>\<rparr>"
      "\<lparr>scope = None, schema_name = ''p'', schema_version = Some ''beta''\<rparr>"
      "\<lparr>dist_tags = (\<lambda>t. if t = ''latest'' then Version ''1.2.0'' else Undefined),
        own_versions = [''1.2.0'' \<mapsto> (1::nat)]\<rparr>"
      "''2.0.0-beta''" "''1.0.0''"]
  by (simp add: versions_def)

text \<open>
  The identifier \<^verbatim>\<open>p@constructor\<close> asks for the version \<^verbatim>\<open>constructor\<close>. The versions
  map has no such version, and the selection returns the member \<^verbatim>\<open>constructor\<close> that
  \<^verbatim>\<open>versions\<close> inherits, not \<^verbatim>\<open>undefined\<close>.
\<close>

theorem selectNpmPackage_missing_version_counterexample:
  "getNameSchema ''p@constructor'' =
     Inr \<lparr>scope = None, schema_name = ''p'', schema_version = Some ''constructor''\<rparr> \<and>
   own_versions
     \<lparr>dist_tags = (\<lambda>t. if t = ''latest'' then Version ''1.2.0'' else Undefined),
      own_versions = [''1.2.0'' \<mapsto> (1::nat)]\<rparr> ''constructor'' = None \<and>
   selectNpmPackage
     \<lparr>dist_tags = (\<lambda>t. if t = ''latest'' then Version ''1.2.0'' else Undefined),
      own_versions = [''1.2.0'' \<mapsto> (1::nat)]\<rparr>
     \<lparr>source_from = npm, source_name = ''p@constructor'', source_uri = Some ''https://r/p'',
      urlObject = None,
      schema = Some \<lparr>scope = None, schema_name = ''p'', schema_version = Some ''constructor''\<rparr>\<rparr>
     = Inr (Some (Inherited ''constructor'')) \<and>
   selectNpmPackage
     \<lparr>dist_tags = (\<lambda>t. if t = ''latest'' then Version ''1.2.0'' else Undefined),
      own_versions = [''1.2.0'' \<mapsto> (1::nat)]\<rparr>
     \<lparr>source_from = npm, source_name = ''p@constructor'', source_uri = Some ''https://r/p'',
      urlObject = None,
      schema = Some \<lparr>scope = None, schema_name = ''p'', schema_version = Some ''constructor''\<rparr>\<rparr>
     \<noteq> Inr None"
  by (simp add: getNameSchema_def name_and_version_def selectNpmPackage_def versions_def
      Object_prototype_properties_def)

text \<open>
  Claim C10, amended. Let an explicit version (not empty, not \<^verbatim>\<open>beta\<close>, not
  \<^verbatim>\<open>latest\<close>) be absent from the versions map. The selection raises no error. When the
  version is not the name of a property that every object inherits, the selection
  returns the undefined manifest.
\<close>

theorem selectNpmPackage_missing_version:
  assumes "schema src = Some s"
    and "schema_version s = Some ver"
    and "ver \<notin> {''beta'', ''latest'', ''''}"
    and "own_versions metadata ver = None"
  shows
  "(\<exists>r. selectNpmPackage metadata src = Inr r) \<and>
   (ver \<notin> set Object_prototype_properties \<longrightarrow> selectNpmPackage metadata src = Inr None)"
  using assms by (simp add: selectNpmPackage_def versions_def)

theorem selectNpmPackage_missing_version_witness:
  "selectNpmPackage
     \<lparr>dist_tags = (\<lambda>t. if t = ''latest'' then Version ''1.2.0'' else Undefined),
      own_versions = [''1.2.0'' \<mapsto> (1::nat)]\<rparr>
     \<lparr>source_from = npm, source_name = ''p@9.9.9'', source_uri = Some ''https://r/p'',
      urlObject = None,
      schema = Some \<lparr>scope = None, schema_name = ''p'', schema_version = Some ''9.9.9''\<rparr>\<rparr>
     = Inr None"
  using selectNpmPackage_missing_version [of
      "\<lparr>source_from = npm, source_name = ''p@9.9.9'', source_uri = Some ''https://r/p'',
        urlObject = None,
        schema = Some \<lparr>scope = None, schema_name = ''p'', schema_version = Some ''9.9.9''\<rparr>\<rparr>"
      "\<lparr>scope = None, schema_name = ''p'', schema_version = Some ''9.9.9''\<rparr>"
      "''9.9.9''"
      "\<lparr>dist_tags = (\<lambda>t. if t = ''latest'' then Version ''1.2.0'' else Undefined),
        own_versions = [''1.2.0'' \<mapsto> (1::nat)]\<rparr>"]
  by (simp add: Object_prototype_properties_def)

subsection \<open>The cached HTTP fetch\<close>

lemma lru_put_store: "store (lru_put c k v) k = Some v"
  by (simp add: lru_put_def Let_def)

lemma lru_get_fst: "fst (lru_get c k) = store c k"
  by (simp add: lru_get_def split: option.splits)

text \<open>
  The three branches on the status of the response. With status 200 and a body that
  \<^verbatim>\<open>JSON.parse\<close> accepts, the parsed body is returned and the cache holds the entry
  of the response's \<^verbatim>\<open>etag\<close>, its \<^verbatim>\<open>last-modified\<close> and the parsed body under the URI.
  With status 304 and an entry cached under the URI, the body of that entry is returned,
  whatever \<open>parse\<close> is, and the store of the cache is as it was. With any other status
  the function fails with a \<^verbatim>\<open>TypeError\<close> whose message is empty.
\<close>

lemma requestHttpGetWithCache_statuses:
  assumes "get uri (request_headers truthy (store c uri)) = Inr resp"
  shows
  "(statusCode resp = 200 \<longrightarrow>
      (\<forall>b. parse (resp_body resp) = Some b \<longrightarrow>
         fst (requestHttpGetWithCache get parse truthy uri c) = Inr b \<and>
         store (snd (requestHttpGetWithCache get parse truthy uri c)) uri =
           Some \<lparr>etag = header_etag resp, lastModified = header_last_modified resp, body = b\<rparr>)) \<and>
   (statusCode resp = 304 \<longrightarrow>
      (\<forall>e. store c uri = Some e \<longrightarrow>
         fst (requestHttpGetWithCache get parse truthy uri c) = Inr (body e) \<and>
         store (snd (requestHttpGetWithCache get parse truthy uri c)) = store c)) \<and>
   (statusCode resp \<noteq> 200 \<and> statusCode resp \<noteq> 304 \<longrightarrow>
      fst (requestHttpGetWithCache get parse truthy uri c) = Inl (TypeError []))"
proof -
  obtain cache c1 where g: "lru_get c uri = (cache, c1)" by (cases "lru_get c uri")
  have cache: "cache = store c uri" using lru_get_fst [of c uri] g by simp
  have c1: "store c1 = store c" using g by (auto simp: lru_get_def split: option.splits)
  have r: "get uri (request_headers truthy cache) = Inr resp"
    using assms by (simp add: cache)
  have run: "requestHttpGetWithCache get parse truthy uri c =
      (if statusCode resp = 200 then
         (case parse (resp_body resp) of
            None \<Rightarrow> (Inl SyntaxError, c1)
          | Some b \<Rightarrow>
              (Inr b,
               lru_put c1 uri
                 \<lparr>etag = header_etag resp, lastModified = header_last_modified resp, body = b\<rparr>))
       else if statusCode resp = 304 then
         (case cache of
            None \<Rightarrow> (Inl (TypeError ''Cannot read property 'body' of undefined''), c1)
          | Some e \<Rightarrow> (Inr (body e), c1))
       else (Inl (TypeError []), c1))"
    by (simp add: requestHttpGetWithCache_def g r message_def)
  show ?thesis
    unfolding run by (simp add: cache [symmetric] lru_put_store c1)
qed

text \<open>
  Claim C2. The registry answers 404 with the status message \<^verbatim>\<open>Not Found\<close>, and nothing
  is cached. The function fails with a \<^verbatim>\<open>TypeError\<close> whose message is empty: the
  status message of the response is not in the error. The cache is as it was.
\<close>

theorem requestHttpGetWithCache_drops_status_message:
  "requestHttpGetWithCache
     (\<lambda>u h. Inr \<lparr>statusCode = 404, statusMessage = ''Not Found'', resp_body = [],
                  header_etag = None, header_last_modified = None\<rparr>)
     Some (\<lambda>b. b \<noteq> []) ''https://r/p'' httpCacheByURI
   = (Inl (TypeError []), httpCacheByURI)"
  by (simp add: requestHttpGetWithCache_def lru_get_def lru_new_def httpCacheByURI_def
      request_headers_def message_def)

subsection \<open>Validation and assignment\<close>

text \<open>
  Claim C8. A package without a truthy \<^verbatim>\<open>pipcook\<close> field makes
  \<^verbatim>\<open>validAndAssign\<close> fail, except when \<^verbatim>\<open>NODE_ENV\<close> is \<^verbatim>\<open>test\<close>: then a warning is
  printed and the package is returned as it was. A package with the field is returned
  with the source and with a target that is one function of the install directory, the
  name and the version, for every package, source and options. For a normalised install
  directory and a name and version with plain components, the two paths of the target
  are given as texts.
\<close>

theorem validAndAssign_cases:
  "(pipcook p = None \<and> node_env \<noteq> Some ''test'' \<longrightarrow>
      validAndAssign node_env options (Some p) src =
        Inl (TypeError ''Invalid plugin package.json, not found on \"pipcook\"'')) \<and>
   (pipcook p = None \<and> node_env = Some ''test'' \<longrightarrow>
      validAndAssign node_env options (Some p) src =
        Inr (Some p, [''skip the valid package and assign because NODE_ENV is set to \"test\".''])) \<and>
   (\<exists>target_of. \<forall>env opts q m s.
      pipcook q = Some m \<longrightarrow>
        validAndAssign env opts (Some q) s =
          Inr (Some (q\<lparr>pipcook := Some (m
                 \<lparr>source := Some s,
                  target := Some (target_of (installDir opts) (pkg_name q) (pkg_version q))\<rparr>)\<rparr>),
               [])) \<and>
   (pipcook p = Some meta \<and> normalised (installDir options) \<and>
    plain_segments (pkg_name p @ ''@'' @ pkg_version p) \<longrightarrow>
      validAndAssign node_env options (Some p) src =
        Inr (Some (p\<lparr>pipcook := Some (meta
               \<lparr>source := Some src,
                target := Some
                  \<lparr>PYTHONPATH = installDir options @ ''/conda_envs/'' @ pkg_name p @ ''@'' @
                     pkg_version p @ ''/lib/python3.7/site-packages'',
                   DESTPATH = installDir options @ ''/node_modules/'' @ pkg_name p @ ''@'' @
                     pkg_version p\<rparr>\<rparr>)\<rparr>), []))"
proof -
  have g: "\<exists>target_of. \<forall>env opts q m s.
      pipcook q = Some m \<longrightarrow>
        validAndAssign env opts (Some q) s =
          Inr (Some (q\<lparr>pipcook := Some (m
                 \<lparr>source := Some s,
                  target := Some (target_of (installDir opts) (pkg_name q) (pkg_version q))\<rparr>)\<rparr>),
               [])"
    by (rule exI [where x = "\<lambda>d n v.
          \<lparr>PYTHONPATH = path_join
             [d, ''conda_envs/'' @ n @ ''@'' @ v, ''lib/python3.7/site-packages''],
           DESTPATH = path_join [d, ''node_modules/'' @ n @ ''@'' @ v]\<rparr>"])
      (simp add: validAndAssign_def validPackage_def assignPackage_def)
  have a: "pipcook p = None \<and> node_env \<noteq> Some ''test'' \<longrightarrow>
      validAndAssign node_env options (Some p) src =
        Inl (TypeError ''Invalid plugin package.json, not found on \"pipcook\"'')"
    by (simp add: validAndAssign_def validPackage_def)
  have b: "pipcook p = None \<and> node_env = Some ''test'' \<longrightarrow>
      validAndAssign node_env options (Some p) src =
        Inr (Some p, [''skip the valid package and assign because NODE_ENV is set to \"test\".''])"
    by (simp add: validAndAssign_def validPackage_def)
  have c: "pipcook p = Some meta \<and> normalised (installDir options) \<and>
    plain_segments (pkg_name p @ ''@'' @ pkg_version p) \<longrightarrow>
      validAndAssign node_env options (Some p) src =
        Inr (Some (p\<lparr>pipcook := Some (meta
               \<lparr>source := Some src,
                target := Some
                  \<lparr>PYTHONPATH = installDir options @ ''/conda_envs/'' @ pkg_name p @ ''@'' @
                     pkg_version p @ ''/lib/python3.7/site-packages'',
                   DESTPATH = installDir options @ ''/node_modules/'' @ pkg_name p @ ''@'' @
                     pkg_version p\<rparr>\<rparr>)\<rparr>), [])"
    by (simp add: validAndAssign_def validPackage_def assignPackage_def)
  from a b g c show ?thesis by (intro conjI)
qed

theorem validAndAssign_cases_witness:
  "normalised ''/p'' \<and> plain_segments ''a@1'' \<and>
   validAndAssign None
     \<lparr>installDir = ''/p'', datasetDir = ''/d'', componentDir = ''/c'', npmRegistryPrefix = ''https://r/''\<rparr>
     (Some \<lparr>pkg_name = ''a'', pkg_version = ''1'', pipcook = None, conda = None\<rparr>)
     \<lparr>source_from = fs, source_name = ''/x/a'', source_uri = Some ''/x/a'', urlObject = None,
      schema = None\<rparr>
   = Inl (TypeError ''Invalid plugin package.json, not found on \"pipcook\"'') \<and>
   validAndAssign (Some ''test'')
     \<lparr>installDir = ''/p'', datasetDir = ''/d'', componentDir = ''/c'', npmRegistryPrefix = ''https://r/''\<rparr>
     (Some \<lparr>pkg_name = ''a'', pkg_version = ''1'', pipcook = None, conda = None\<rparr>)
     \<lparr>source_from = fs, source_name = ''/x/a'', source_uri = Some ''/x/a'', urlObject = None,
      schema = None\<rparr>
   = Inr (Some \<lparr>pkg_name = ''a'', pkg_version = ''1'', pipcook = None, conda = None\<rparr>,
          [''skip the valid package and assign because NODE_ENV is set to \"test\".'']) \<and>
   validAndAssign None
     \<lparr>installDir = ''/p'', datasetDir = ''/d'', componentDir = ''/c'', npmRegistryPrefix = ''https://r/''\<rparr>
     (Some \<lparr>pkg_name = ''a'', pkg_version = ''1'',
            pipcook = Some \<lparr>source = None, target = None\<rparr>, conda = None\<rparr>)
     \<lparr>source_from = fs, source_name = ''/x/a'', source_uri = Some ''/x/a'', urlObject = None,
      schema = None\<rparr>
   = Inr (Some \<lparr>pkg_name = ''a'', pkg_version = ''1'',
                 pipcook = Some
                   \<lparr>source = Some \<lparr>source_from = fs, source_name = ''/x/a'',
                                    source_uri = Some ''/x/a'', urlObject = None, schema = None\<rparr>,
                    target = Some \<lparr>PYTHONPATH = ''/p/conda_envs/a@1/lib/python3.7/site-packages'',
                                   DESTPATH = ''/p/node_modules/a@1''\<rparr>\<rparr>,
                 conda = None\<rparr>, [])"
proof -
  have n: "normalised ''/p''" and s: "plain_segments ''a@1''"
    by (simp_all add: normalised_def plain_segments_def)
  note c1 = validAndAssign_cases [of
      "\<lparr>pkg_name = ''a'', pkg_version = ''1'', pipcook = None, conda = None\<rparr>" None
      "\<lparr>installDir = ''/p'', datasetDir = ''/d'', componentDir = ''/c'', npmRegistryPrefix = ''https://r/''\<rparr>"
      "\<lparr>source_from = fs, source_name = ''/x/a'', source_uri = Some ''/x/a'', urlObject = None,
        schema = None\<rparr>"
      "\<lparr>source = None, target = None\<rparr>", THEN conjunct1]
  note c2 = validAndAssign_cases [of
      "\<lparr>pkg_name = ''a'', pkg_version = ''1'', pipcook = None, conda = None\<rparr>" "Some ''test''"
      "\<lparr>installDir = ''/p'', datasetDir = ''/d'', componentDir = ''/c'', npmRegistryPrefix = ''https://r/''\<rparr>"
      "\<lparr>source_from = fs, source_name = ''/x/a'', source_uri = Some ''/x/a'', urlObject = None,
        schema = None\<rparr>"
      "\<lparr>source = None, target = None\<rparr>", THEN conjunct2, THEN conjunct1]
  note c3 = validAndAssign_cases [of
      "\<lparr>pkg_name = ''a'', pkg_version = ''1'',
        pipcook = Some \<lparr>source = None, target = None\<rparr>, conda = None\<rparr>" None
      "\<lparr>installDir = ''/p'', datasetDir = ''/d'', componentDir = ''/c'', npmRegistryPrefix = ''https://r/''\<rparr>"
      "\<lparr>source_from = fs, source_name = ''/x/a'', source_uri = Some ''/x/a'', urlObject = None,
        schema = None\<rparr>"
      "\<lparr>source = None, target = None\<rparr>", THEN conjunct2, THEN conjunct2, THEN conjunct2]
  have a: "validAndAssign None
     \<lparr>installDir = ''/p'', datasetDir = ''/d'', componentDir = ''/c'', npmRegistryPrefix = ''https://r/''\<rparr>
     (Some \<lparr>pkg_name = ''a'', pkg_version = ''1'', pipcook = None, conda = None\<rparr>)
     \<lparr>source_from = fs, source_name = ''/x/a'', source_uri = Some ''/x/a'', urlObject = None,
      schema = None\<rparr>
   = Inl (TypeError ''Invalid plugin package.json, not found on \"pipcook\"'')"
    using c1 by simp
  have b: "validAndAssign (Some ''test'')
     \<lparr>installDir = ''/p'', datasetDir = ''/d'', componentDir = ''/c'', npmRegistryPrefix = ''https://r/''\<rparr>
     (Some \<lparr>pkg_name = ''a'', pkg_version = ''1'', pipcook = None, conda = None\<rparr>)
     \<lparr>source_from = fs, source_name = ''/x/a'', source_uri = Some ''/x/a'', urlObject = None,
      schema = None\<rparr>
   = Inr (Some \<lparr>pkg_name = ''a'', pkg_version = ''1'', pipcook = None, conda = None\<rparr>,
          [''skip the valid package and assign because NODE_ENV is set to \"test\".''])"
    using c2 by simp
  have c: "validAndAssign None
     \<lparr>installDir = ''/p'', datasetDir = ''/d'', componentDir = ''/c'', npmRegistryPrefix = ''https://r/''\<rparr>
     (Some \<lparr>pkg_name = ''a'', pkg_version = ''1'',
            pipcook = Some \<lparr>source = None, target = None\<rparr>, conda = None\<rparr>)
     \<lparr>source_from = fs, source_name = ''/x/a'', source_uri = Some ''/x/a'', urlObject = None,
      schema = None\<rparr>
   = Inr (Some \<lparr>pkg_name = ''a'', pkg_version = ''1'',
                 pipcook = Some
                   \<lparr>source = Some \<lparr>source_from = fs, source_name = ''/x/a'',
                                    source_uri = Some ''/x/a'', urlObject = None, schema = None\<rparr>,
                    target = Some \<lparr>PYTHONPATH = ''/p/conda_envs/a@1/lib/python3.7/site-packages'',
                                   DESTPATH = ''/p/node_modules/a@1''\<rparr>\<rparr>,
                 conda = None\<rparr>, [])"
    using c3 n s by simp
  show ?thesis using n s a b c by simp
qed

subsection \<open>Install and uninstall\<close>

lemma path_join_node_modules:
  "path_join [d, ''node_modules'', name] = d @ ''/node_modules/'' @ name"
  by simp

lemma path_join_conda_envs:
  "path_join [d, ''conda_envs'', e] = d @ ''/conda_envs/'' @ e"
  by simp

lemma path_join_manifest: "path_join [d, ''package.json''] = d @ ''/package.json''"
  by simp


lemma removePkg_removes:
  assumes "isInstalled options name w"
  shows "\<exists>pkg' w'. removePkg options name version pkg w = (True, pkg', w') \<and>
           trace w' = trace w @
             [Remove (installDir options @ ''/node_modules/'' @ name),
              Remove (installDir options @ ''/conda_envs/'' @ name @ ''@'' @ version)] \<and>
           json_files w' = json_files w \<and>
           \<not> isInstalled options name w'"
  using assms
  by (simp add: removePkg_def Let_def remove_path_def isInstalled_def pathExists_def)








lemma uninstall_One_installed:
  assumes "json_files w (path_join [installDir options, ''package.json'']) = Some m"
    and "isInstalled options name w"
  shows "\<exists>w1. uninstall options (One \<lparr>meta_name = name, meta_version = version\<rparr>) w = Inr (True, w1) \<and>
           \<not> isInstalled options name w1 \<and>
           Remove (installDir options @ ''/node_modules/'' @ name) \<in> set (new_effects w w1)"
proof -
  obtain pkg' w' where
    r: "removePkg options name version m w = (True, pkg', w')" and
    t: "trace w' = trace w @
             [Remove (installDir options @ ''/node_modules/'' @ name),
              Remove (installDir options @ ''/conda_envs/'' @ name @ ''@'' @ version)]" and
    n: "\<not> isInstalled options name w'"
    using removePkg_removes [OF assms(2), of version m] by blast
  let ?w1 = "writeJson (path_join [installDir options, ''package.json'']) pkg' w'"
  have "uninstall options (One \<lparr>meta_name = name, meta_version = version\<rparr>) w = Inr (True, ?w1)"
    using assms(1) r by (simp add: uninstall_def readJson_def)
  moreover have "\<not> isInstalled options name ?w1"
    using n by (simp add: isInstalled_def pathExists_def writeJson_def)
  moreover have "Remove (installDir options @ ''/node_modules/'' @ name) \<in> set (new_effects w ?w1)"
    using t by (simp add: new_effects_def writeJson_def)
  ultimately show ?thesis by blast
qed

text \<open>
  Claim C4. With \<^verbatim>\<open>force\<close> true, \<^verbatim>\<open>install\<close> runs \<^verbatim>\<open>uninstall\<close> first, fails if
  that fails, and otherwise provisions on the disk that \<^verbatim>\<open>uninstall\<close> left; for a
  package that was installed and a readable root manifest, the module directory has been
  removed before the provisioning starts. Without \<^verbatim>\<open>force\<close>, \<^verbatim>\<open>install\<close> of an
  installed package returns true and leaves the disk as it was, whatever the provisioning
  would do.
\<close>

theorem install_force_and_noop:
  "(force opts = Some True \<longrightarrow>
      install provision options pkg opts w =
        (case uninstall options (One \<lparr>meta_name = pkg_name pkg, meta_version = pkg_version pkg\<rparr>) w of
           Inl err \<Rightarrow> Inl err
         | Inr (removed, w1) \<Rightarrow>
             (case provision options pkg opts w1 of
                Inl err \<Rightarrow> Inl err
              | Inr w2 \<Rightarrow> Inr (True, w2)))) \<and>
   (force opts = Some True \<and> isInstalled options (pkg_name pkg) w \<and>
    json_files w (path_join [installDir options, ''package.json'']) = Some m \<longrightarrow>
      (\<exists>w1. uninstall options (One \<lparr>meta_name = pkg_name pkg, meta_version = pkg_version pkg\<rparr>) w =
               Inr (True, w1) \<and>
            Remove (installDir options @ ''/node_modules/'' @ pkg_name pkg) \<in> set (new_effects w w1) \<and>
            \<not> isInstalled options (pkg_name pkg) w1 \<and>
            install provision options pkg opts w =
              (case provision options pkg opts w1 of
                 Inl err \<Rightarrow> Inl err
               | Inr w2 \<Rightarrow> Inr (True, w2)))) \<and>
   (force opts \<noteq> Some True \<and> isInstalled options (pkg_name pkg) w \<longrightarrow>
      install provision options pkg opts w = Inr (True, w))"
proof (intro conjI impI)
  assume f: "force opts = Some True"
  show "install provision options pkg opts w =
        (case uninstall options (One \<lparr>meta_name = pkg_name pkg, meta_version = pkg_version pkg\<rparr>) w of
           Inl err \<Rightarrow> Inl err
         | Inr (removed, w1) \<Rightarrow>
             (case provision options pkg opts w1 of
                Inl err \<Rightarrow> Inl err
              | Inr w2 \<Rightarrow> Inr (True, w2)))"
    using f by (simp add: install_def split: sum.splits prod.splits)
next
  assume h: "force opts = Some True \<and> isInstalled options (pkg_name pkg) w \<and>
    json_files w (path_join [installDir options, ''package.json'']) = Some m"
  then obtain w1 where
    u: "uninstall options (One \<lparr>meta_name = pkg_name pkg, meta_version = pkg_version pkg\<rparr>) w =
          Inr (True, w1)" and
    n: "\<not> isInstalled options (pkg_name pkg) w1" and
    r: "Remove (installDir options @ ''/node_modules/'' @ pkg_name pkg) \<in> set (new_effects w w1)"
    using uninstall_One_installed [of w options m "pkg_name pkg" "pkg_version pkg"] by blast
  have "install provision options pkg opts w =
          (case provision options pkg opts w1 of Inl err \<Rightarrow> Inl err | Inr w2 \<Rightarrow> Inr (True, w2))"
    using h u by (simp add: install_def)
  with u n r show "\<exists>w1. uninstall options
            (One \<lparr>meta_name = pkg_name pkg, meta_version = pkg_version pkg\<rparr>) w = Inr (True, w1) \<and>
            Remove (installDir options @ ''/node_modules/'' @ pkg_name pkg) \<in> set (new_effects w w1) \<and>
            \<not> isInstalled options (pkg_name pkg) w1 \<and>
            install provision options pkg opts w =
              (case provision options pkg opts w1 of
                 Inl err \<Rightarrow> Inl err
               | Inr w2 \<Rightarrow> Inr (True, w2))"
    by blast
next
  assume "force opts \<noteq> Some True \<and> isInstalled options (pkg_name pkg) w"
  then show "install provision options pkg opts w = Inr (True, w)"
    by (simp add: install_def)
qed


theorem install_force_and_noop_witness:
  "install (\<lambda>options pkg opts w. Inr (w\<lparr>entries := insert ''/p/node_modules/a'' (entries w)\<rparr>))
     \<lparr>installDir = ''/p'', datasetDir = ''/d'', componentDir = ''/c'', npmRegistryPrefix = ''https://r/''\<rparr>
     \<lparr>pkg_name = ''a'', pkg_version = ''1'', pipcook = None, conda = None\<rparr>
     \<lparr>pyIndex = None, force = Some True\<rparr>
     \<lparr>entries = {''/p/node_modules/a''},
      json_files = [''/p/package.json'' \<mapsto> \<lparr>manifest_dependencies = None\<rparr>],
      trace = []\<rparr>
   = Inr (True,
       \<lparr>entries = {''/p/node_modules/a''},
        json_files = [''/p/package.json'' \<mapsto> \<lparr>manifest_dependencies = None\<rparr>],
        trace = [Remove ''/p/node_modules/a'', Remove ''/p/conda_envs/a@1'',
                 WriteJson ''/p/package.json'' \<lparr>manifest_dependencies = None\<rparr>]\<rparr>) \<and>
   install (\<lambda>options pkg opts w. Inr (w\<lparr>entries := insert ''/p/node_modules/a'' (entries w)\<rparr>))
     \<lparr>installDir = ''/p'', datasetDir = ''/d'', componentDir = ''/c'', npmRegistryPrefix = ''https://r/''\<rparr>
     \<lparr>pkg_name = ''a'', pkg_version = ''1'', pipcook = None, conda = None\<rparr>
     \<lparr>pyIndex = None, force = None\<rparr>
     \<lparr>entries = {''/p/node_modules/a''},
      json_files = [''/p/package.json'' \<mapsto> \<lparr>manifest_dependencies = None\<rparr>],
      trace = []\<rparr>
   = Inr (True,
       \<lparr>entries = {''/p/node_modules/a''},
        json_files = [''/p/package.json'' \<mapsto> \<lparr>manifest_dependencies = None\<rparr>],
        trace = []\<rparr>)"
  using
    install_force_and_noop [where
      provision = "\<lambda>options pkg opts w. Inr (w\<lparr>entries := insert ''/p/node_modules/a'' (entries w)\<rparr>)"
      and options = "\<lparr>installDir = ''/p'', datasetDir = ''/d'', componentDir = ''/c'',
                     npmRegistryPrefix = ''https://r/''\<rparr>"
      and pkg = "\<lparr>pkg_name = ''a'', pkg_version = ''1'', pipcook = None, conda = None\<rparr>"
      and opts = "\<lparr>pyIndex = None, force = Some True\<rparr>"
      and w = "\<lparr>entries = {''/p/node_modules/a''},
               json_files = [''/p/package.json'' \<mapsto> \<lparr>manifest_dependencies = None\<rparr>],
               trace = []\<rparr>"
      and m = "\<lparr>manifest_dependencies = None\<rparr>"]
    install_force_and_noop [where
      provision = "\<lambda>options pkg opts w. Inr (w\<lparr>entries := insert ''/p/node_modules/a'' (entries w)\<rparr>)"
      and options = "\<lparr>installDir = ''/p'', datasetDir = ''/d'', componentDir = ''/c'',
                     npmRegistryPrefix = ''https://r/''\<rparr>"
      and pkg = "\<lparr>pkg_name = ''a'', pkg_version = ''1'', pipcook = None, conda = None\<rparr>"
      and opts = "\<lparr>pyIndex = None, force = None\<rparr>"
      and w = "\<lparr>entries = {''/p/node_modules/a''},
               json_files = [''/p/package.json'' \<mapsto> \<lparr>manifest_dependencies = None\<rparr>],
               trace = []\<rparr>"
      and m = "\<lparr>manifest_dependencies = None\<rparr>"]
  by (auto simp: uninstall_def readJson_def writeJson_def removePkg_def isInstalled_def
      pathExists_def remove_path_def Let_def)


text \<open>
  Claim C9. The check for an installed plugin looks at the path
  \<^verbatim>\<open>{installDir}/node_modules/{name}\<close> only. Whether \<^verbatim>\<open>removePkg\<close> skips an entry
  and whether \<^verbatim>\<open>install\<close> returns early depend on the name and not on the version.
\<close>

theorem isInstalled_ignores_version:
  "isInstalled options name w = (installDir options @ ''/node_modules/'' @ name \<in> entries w) \<and>
   fst (removePkg options name version pkg w) = isInstalled options name w \<and>
   fst (removePkg options name version pkg w) = fst (removePkg options name version' pkg w) \<and>
   (force opts \<noteq> Some True \<longrightarrow>
      install provision options (p\<lparr>pkg_version := version\<rparr>) opts w =
        (if isInstalled options (pkg_name p) w then Inr (True, w)
         else (case provision options (p\<lparr>pkg_version := version\<rparr>) opts w of
                 Inl err \<Rightarrow> Inl err
               | Inr w2 \<Rightarrow> Inr (True, w2))))"
  by (simp add: install_def removePkg_def Let_def isInstalled_def pathExists_def)

theorem isInstalled_ignores_version_witness:
  "isInstalled
     \<lparr>installDir = ''/p'', datasetDir = ''/d'', componentDir = ''/c'', npmRegistryPrefix = ''https://r/''\<rparr>
     ''a''
     \<lparr>entries = {''/p/node_modules/a'', ''/p/conda_envs/a@1''},
      json_files = [''/p/package.json'' \<mapsto> \<lparr>manifest_dependencies = None\<rparr>],
      trace = []\<rparr> \<and>
   install (\<lambda>options pkg opts w. Inl (FsError ''provision''))
     \<lparr>installDir = ''/p'', datasetDir = ''/d'', componentDir = ''/c'', npmRegistryPrefix = ''https://r/''\<rparr>
     \<lparr>pkg_name = ''a'', pkg_version = ''2'', pipcook = None, conda = None\<rparr>
     \<lparr>pyIndex = None, force = None\<rparr>
     \<lparr>entries = {''/p/node_modules/a'', ''/p/conda_envs/a@1''},
      json_files = [''/p/package.json'' \<mapsto> \<lparr>manifest_dependencies = None\<rparr>],
      trace = []\<rparr>
   = Inr (True,
       \<lparr>entries = {''/p/node_modules/a'', ''/p/conda_envs/a@1''},
        json_files = [''/p/package.json'' \<mapsto> \<lparr>manifest_dependencies = None\<rparr>],
        trace = []\<rparr>) \<and>
   fst (removePkg
     \<lparr>installDir = ''/p'', datasetDir = ''/d'', componentDir = ''/c'', npmRegistryPrefix = ''https://r/''\<rparr>
     ''a'' ''2'' \<lparr>manifest_dependencies = None\<rparr>
     \<lparr>entries = {''/p/node_modules/a'', ''/p/conda_envs/a@1''},
      json_files = [''/p/package.json'' \<mapsto> \<lparr>manifest_dependencies = None\<rparr>],
      trace = []\<rparr>)"
  using
    isInstalled_ignores_version [where
      provision = "\<lambda>options pkg opts w. Inl (FsError ''provision'')"
      and options = "\<lparr>installDir = ''/p'', datasetDir = ''/d'', componentDir = ''/c'',
                     npmRegistryPrefix = ''https://r/''\<rparr>"
      and name = "''a''"
      and p = "\<lparr>pkg_name = ''a'', pkg_version = ''1'', pipcook = None, conda = None\<rparr>"
      and version = "''2''" and version' = "''1''"
      and pkg = "\<lparr>manifest_dependencies = None\<rparr>"
      and opts = "\<lparr>pyIndex = None, force = None\<rparr>"
      and w = "\<lparr>entries = {''/p/node_modules/a'', ''/p/conda_envs/a@1''},
               json_files = [''/p/package.json'' \<mapsto> \<lparr>manifest_dependencies = None\<rparr>],
               trace = []\<rparr>"]
  by simp


text \<open>
  Claim C3. \<^verbatim>\<open>assignPackage\<close> gives the package \<^verbatim>\<open>a\<close> of version \<^verbatim>\<open>1\<close> the module
  install target \<^verbatim>\<open>/p/node_modules/a@1\<close>. With that directory on the disk,
  \<^verbatim>\<open>uninstall\<close> of the entry removes nothing and returns false; and when
  \<^verbatim>\<open>/p/node_modules/a\<close> exists as well, \<^verbatim>\<open>uninstall\<close> removes that directory and the
  interpreter environment and leaves the install target in place.
\<close>

theorem uninstall_misses_DESTPATH:
  "assignPackage
     \<lparr>installDir = ''/p'', datasetDir = ''/d'', componentDir = ''/c'', npmRegistryPrefix = ''https://r/''\<rparr>
     (Some \<lparr>pkg_name = ''a'', pkg_version = ''1'',
            pipcook = Some \<lparr>source = None, target = None\<rparr>, conda = None\<rparr>)
     \<lparr>source_from = npm, source_name = ''a@1'', source_uri = Some ''https://r/a'', urlObject = None,
      schema = Some \<lparr>scope = None, schema_name = ''a'', schema_version = Some ''1''\<rparr>\<rparr>
   = Inr (Some \<lparr>pkg_name = ''a'', pkg_version = ''1'',
                 pipcook = Some
                   \<lparr>source = Some
                      \<lparr>source_from = npm, source_name = ''a@1'', source_uri = Some ''https://r/a'',
                       urlObject = None,
                       schema = Some \<lparr>scope = None, schema_name = ''a'', schema_version = Some ''1''\<rparr>\<rparr>,
                    target = Some \<lparr>PYTHONPATH = ''/p/conda_envs/a@1/lib/python3.7/site-packages'',
                                   DESTPATH = ''/p/node_modules/a@1''\<rparr>\<rparr>,
                 conda = None\<rparr>) \<and>
   uninstall
     \<lparr>installDir = ''/p'', datasetDir = ''/d'', componentDir = ''/c'', npmRegistryPrefix = ''https://r/''\<rparr>
     (One \<lparr>meta_name = ''a'', meta_version = ''1''\<rparr>)
     \<lparr>entries = {''/p/node_modules/a@1'', ''/p/conda_envs/a@1''},
      json_files = [''/p/package.json'' \<mapsto> \<lparr>manifest_dependencies = Some [''a@1'' \<mapsto> ''npm:a@1'']\<rparr>],
      trace = []\<rparr>
   = Inr (False,
       \<lparr>entries = {''/p/node_modules/a@1'', ''/p/conda_envs/a@1''},
        json_files = [''/p/package.json'' \<mapsto> \<lparr>manifest_dependencies = Some [''a@1'' \<mapsto> ''npm:a@1'']\<rparr>],
        trace = []\<rparr>) \<and>
   uninstall
     \<lparr>installDir = ''/p'', datasetDir = ''/d'', componentDir = ''/c'', npmRegistryPrefix = ''https://r/''\<rparr>
     (One \<lparr>meta_name = ''a'', meta_version = ''1''\<rparr>)
     \<lparr>entries = {''/p/node_modules/a'', ''/p/node_modules/a@1'', ''/p/conda_envs/a@1''},
      json_files = [''/p/package.json'' \<mapsto> \<lparr>manifest_dependencies = Some [''a'' \<mapsto> ''1'']\<rparr>],
      trace = []\<rparr>
   = Inr (True,
       \<lparr>entries = {''/p/node_modules/a@1''},
        json_files = [''/p/package.json'' \<mapsto> \<lparr>manifest_dependencies = Some Map.empty\<rparr>],
        trace = [Remove ''/p/node_modules/a'', Remove ''/p/conda_envs/a@1'',
                 WriteJson ''/p/package.json'' \<lparr>manifest_dependencies = Some Map.empty\<rparr>]\<rparr>)"
  by (auto simp: assignPackage_def uninstall_def readJson_def writeJson_def removePkg_def
      isInstalled_def pathExists_def remove_path_def Let_def)

end
